theory Spec2Isabelle
  imports Complex_Main "HOL-Library.Sublist" "HOL-Library.AList"
begin

section \<open>Python values, dictionaries and exceptions\<close>

text \<open>
  The opinions handled by the classifier are whatever \<^verbatim>\<open>json.loads\<close> made of a model
  response: \<^verbatim>\<open>None\<close>, booleans, integers, strings, lists and dictionaries with string
  keys. A dictionary is an association list in insertion order; a lookup takes the first
  entry of a key. JSON numbers with a fractional part (Python floats) are outside the model.
\<close>

datatype pyval =
    PNone
  | PBool bool
  | PInt int
  | PStr string
  | PList "pyval list"
  | PDict "(string \<times> pyval) list"

datatype error =
    KeyError
  | IndexError
  | AttributeError
  | TypeError
  | ZeroDivisionError
  | CollaboratorError string

text \<open>Sequencing of a computation that may raise: the first exception wins.\<close>

definition bind_err :: "error + 'a \<Rightarrow> ('a \<Rightarrow> error + 'b) \<Rightarrow> error + 'b" where
  "bind_err m f = (case m of Inl e \<Rightarrow> Inl e | Inr x \<Rightarrow> f x)"

text \<open>
  Python's \<^verbatim>\<open>==\<close> on these values: \<^verbatim>\<open>True == 1\<close> and \<^verbatim>\<open>False == 0\<close> hold, lists are
  compared element by element, dictionaries key by key whatever the order.
\<close>

function py_eq :: "pyval \<Rightarrow> pyval \<Rightarrow> bool" where
  "py_eq PNone y = (y = PNone)"
| "py_eq (PBool a) y =
     (case y of PBool b \<Rightarrow> a = b | PInt j \<Rightarrow> (if a then 1 else 0) = j | _ \<Rightarrow> False)"
| "py_eq (PInt i) y =
     (case y of PBool b \<Rightarrow> i = (if b then 1 else 0) | PInt j \<Rightarrow> i = j | _ \<Rightarrow> False)"
| "py_eq (PStr s) y = (y = PStr s)"
| "py_eq (PList xs) y = (case y of PList ys \<Rightarrow> list_all2 py_eq xs ys | _ \<Rightarrow> False)"
| "py_eq (PDict d) y =
     (case y of
        PDict e \<Rightarrow>
          list_all (\<lambda>k. k \<in> fst ` set d) (map fst e) \<and>
          list_all (\<lambda>k. case map_of d k of
                            None \<Rightarrow> False
                          | Some v \<Rightarrow> (case map_of e k of None \<Rightarrow> False | Some w \<Rightarrow> py_eq v w))
                   (map fst d)
      | _ \<Rightarrow> False)"
  by pat_completeness auto
termination
proof (relation "measure (\<lambda>(x, y). size x)")
  show "wf (measure (\<lambda>(x, y). size x))" by simp
next
  fix xs :: "pyval list" and y :: pyval and ys :: "pyval list" and z :: pyval and za :: pyval
  assume "z \<in> set xs"
  then have "size z < Suc (size_list size xs)"
    by (induction xs) auto
  then show "((z, za), (PList xs, y)) \<in> measure (\<lambda>(x, y). size x)" by simp
next
  fix d :: "(string \<times> pyval) list" and k :: string and v :: pyval and w :: pyval
    and y :: pyval and e :: "(string \<times> pyval) list"
  assume "map_of d k = Some v"
  then have "size v < Suc (size_list (size_prod (\<lambda>_. 0) size) d)"
    by (induction d) (auto split: if_splits)
  then show "((v, w), (PDict d, y)) \<in> measure (\<lambda>(x, y). size x)" by simp
qed

text \<open>Truth value of an object, as \<^verbatim>\<open>if x:\<close> takes it.\<close>

fun py_truthy :: "pyval \<Rightarrow> bool" where
  "py_truthy PNone = False"
| "py_truthy (PBool b) = b"
| "py_truthy (PInt i) = (i \<noteq> 0)"
| "py_truthy (PStr s) = (s \<noteq> [])"
| "py_truthy (PList xs) = (xs \<noteq> [])"
| "py_truthy (PDict d) = (d \<noteq> [])"

text \<open>\<^verbatim>\<open>x in xs\<close> for a list \<open>xs\<close>: some element equals \<open>x\<close>.\<close>

definition py_in_list :: "pyval \<Rightarrow> pyval list \<Rightarrow> bool" where
  "py_in_list x xs = list_ex (\<lambda>e. py_eq e x) xs"

text \<open>\<^verbatim>\<open>d.get(k, default)\<close>, \<^verbatim>\<open>k in d\<close> and \<^verbatim>\<open>d[k]\<close> on a dictionary.\<close>

definition dict_get :: "(string \<times> pyval) list \<Rightarrow> string \<Rightarrow> pyval \<Rightarrow> pyval" where
  "dict_get d k dflt = (case map_of d k of None \<Rightarrow> dflt | Some v \<Rightarrow> v)"

definition dict_has :: "(string \<times> pyval) list \<Rightarrow> string \<Rightarrow> bool" where
  "dict_has d k = (map_of d k \<noteq> None)"

definition dict_item :: "(string \<times> pyval) list \<Rightarrow> string \<Rightarrow> error + pyval" where
  "dict_item d k = (case map_of d k of None \<Rightarrow> Inl KeyError | Some v \<Rightarrow> Inr v)"

text \<open>
  The same two operations on an arbitrary object: only a dictionary has a \<^verbatim>\<open>get\<close>
  method (AttributeError otherwise), and subscripting anything else with a string key is a
  TypeError.
\<close>

fun py_get :: "pyval \<Rightarrow> string \<Rightarrow> pyval \<Rightarrow> error + pyval" where
  "py_get (PDict d) k dflt = Inr (dict_get d k dflt)"
| "py_get _ k dflt = Inl AttributeError"

fun py_item :: "pyval \<Rightarrow> string \<Rightarrow> error + pyval" where
  "py_item (PDict d) k = dict_item d k"
| "py_item _ k = Inl TypeError"

text \<open>\<^verbatim>\<open>k in x\<close> for a string \<open>k\<close>: a key of a dictionary, a substring of a string, an
  element of a list; anything else is not a container.\<close>

fun py_contains :: "pyval \<Rightarrow> string \<Rightarrow> error + bool" where
  "py_contains (PDict d) k = Inr (dict_has d k)"
| "py_contains (PStr s) k = Inr (sublist k s)"
| "py_contains (PList xs) k = Inr (py_in_list (PStr k) xs)"
| "py_contains _ k = Inl TypeError"

section \<open>Schema validator\<close>

definition CALL_TYPES :: "string list" where
  "CALL_TYPES =
     [''RESTORE'', ''ABATEMENT'', ''AMR (METERING)'', ''BILLING'', ''BPCS (BROKEN PIPE)'',
      ''BTR/O (BAD TASTE & ODOR)'', ''C/I - DEP (CAVE IN/DEPRESSION)'', ''CEMENT'',
      ''CHOKED DRAIN'', ''CLAIMS'', ''COMPOST'']"

text \<open>\<^verbatim>\<open>SchemaValidator.invoke\<close> (parsers/schema_validator.py); \<open>categories\<close> is the
  validator's \<^verbatim>\<open>self.categories\<close>.\<close>

fun SchemaValidator_invoke :: "string list \<Rightarrow> pyval \<Rightarrow> bool" where
  "SchemaValidator_invoke categories (PDict d) =
     (if \<not> dict_has d ''call_type'' then False
      else (case dict_item d ''call_type'' of
              Inl e \<Rightarrow> False
            | Inr call_type \<Rightarrow> call_type = PNone \<or> py_in_list call_type (map PStr categories)))"
| "SchemaValidator_invoke categories _ = False"

text \<open>\<^verbatim>\<open>RobustCallClassifier.validate_call_type\<close> (robust_evaluator.py): the same check
  against the module constant.\<close>

fun validate_call_type :: "pyval \<Rightarrow> bool" where
  "validate_call_type (PDict d) =
     (if \<not> dict_has d ''call_type'' then False
      else (case dict_item d ''call_type'' of
              Inl e \<Rightarrow> False
            | Inr call_type \<Rightarrow> call_type = PNone \<or> py_in_list call_type (map PStr CALL_TYPES)))"
| "validate_call_type _ = False"

section \<open>Consensus combiner\<close>

text \<open>The three verdict dictionaries the combiners build.\<close>

definition low_verdict :: pyval where
  "low_verdict =
     PDict [(''call_type'', PNone), (''confidence'', PStr ''low''), (''needs_human'', PBool True)]"

definition medium_verdict :: "pyval \<Rightarrow> pyval" where
  "medium_verdict l = PDict [(''call_type'', l), (''confidence'', PStr ''medium'')]"

definition high_verdict :: "pyval \<Rightarrow> pyval" where
  "high_verdict l = PDict [(''call_type'', l), (''confidence'', PStr ''high'')]"

subsection \<open>Library variant: \<^verbatim>\<open>StrategyCombiner\<close>\<close>

record StrategyCombiner =
  confidence_thresholds :: "(string \<times> rat) list"

text \<open>\<^verbatim>\<open>StrategyCombiner.__init__\<close>: \<^verbatim>\<open>None\<close> and the empty dictionary are both falsy and
  give the default table.\<close>

definition StrategyCombiner_init :: "(string \<times> rat) list option \<Rightarrow> StrategyCombiner" where
  "StrategyCombiner_init thresholds =
     \<lparr>confidence_thresholds =
        (case thresholds of
           None \<Rightarrow> [(''high'', 8 / 10), (''medium'', 5 / 10), (''low'', 3 / 10)]
         | Some t \<Rightarrow> if t = [] then [(''high'', 8 / 10), (''medium'', 5 / 10), (''low'', 3 / 10)]
                     else t)\<rparr>"

text \<open>The \<^verbatim>\<open>parser_results\<close> dictionary: each of its three keys may be missing.\<close>

record parser_results =
  primary :: "pyval option"
  backup :: "pyval option"
  negative :: "string option"

record combiner_inputs =
  parser_results :: parser_results
  validation_result :: bool
  input_text :: string

text \<open>
  \<^verbatim>\<open>StrategyCombiner.invoke\<close> (combiners/strategy_combiner.py). Every
  \<^verbatim>\<open>.get('call_type')\<close> of the source is a \<open>py_get\<close> here, bound where the source first
  evaluates it; \<^verbatim>\<open>and\<close> evaluates its right operand only when the left one is true.
\<close>

definition StrategyCombiner_invoke :: "StrategyCombiner \<Rightarrow> combiner_inputs \<Rightarrow> error + pyval" where
  "StrategyCombiner_invoke self inputs =
     (let primary_result =
            (case primary (parser_results inputs) of
               None \<Rightarrow> PDict [(''call_type'', PNone)] | Some p \<Rightarrow> p);
          backup_result =
            (case backup (parser_results inputs) of
               None \<Rightarrow> PDict [(''call_type'', PNone)] | Some b \<Rightarrow> b);
          negative_check =
            (case negative (parser_results inputs) of None \<Rightarrow> ''yes'' | Some n \<Rightarrow> n)
      in
      if \<not> validation_result inputs then
        bind_err (py_get backup_result ''call_type'' PNone) (\<lambda>b.
          if b \<noteq> PNone then
            bind_err (py_item backup_result ''call_type'') (\<lambda>l. Inr (medium_verdict l))
          else Inr low_verdict)
      else
        bind_err
          (if negative_check = ''no''
           then bind_err (py_get primary_result ''call_type'' PNone) (\<lambda>p. Inr (p \<noteq> PNone))
           else Inr False)
          (\<lambda>contradicted.
            if contradicted then
              bind_err (py_get backup_result ''call_type'' PNone) (\<lambda>b.
                if b = PNone then Inr low_verdict
                else
                  bind_err (py_get primary_result ''call_type'' PNone) (\<lambda>p.
                    if py_eq b p then Inr (medium_verdict p) else Inr low_verdict))
            else
              bind_err (py_get primary_result ''call_type'' PNone) (\<lambda>p.
                bind_err (py_get backup_result ''call_type'' PNone) (\<lambda>b.
                  if py_eq p b \<and> p \<noteq> PNone then Inr (high_verdict p)
                  else if p \<noteq> PNone then Inr (medium_verdict p)
                  else Inr low_verdict))))"

subsection \<open>Script variant: \<^verbatim>\<open>RobustCallClassifier.combine_results\<close>\<close>

text \<open>
  \<^verbatim>\<open>combine_results\<close> (robust_evaluator.py) subscripts the opinions
  (\<^verbatim>\<open>primary_result['call_type']\<close>) and, when the primary opinion is invalid, returns the
  backup opinion itself if it passes \<open>validate_call_type\<close>.
\<close>

definition combine_results ::
  "pyval \<Rightarrow> pyval \<Rightarrow> string \<Rightarrow> bool \<Rightarrow> string \<Rightarrow> error + pyval" where
  "combine_results primary_result backup_result negative_check validation_res customer_input =
     (if \<not> validation_res then
        (if validate_call_type backup_result then Inr backup_result else Inr low_verdict)
      else
        bind_err
          (if negative_check = ''no''
           then bind_err (py_item primary_result ''call_type'') (\<lambda>p. Inr (p \<noteq> PNone))
           else Inr False)
          (\<lambda>contradicted.
            if contradicted then
              bind_err (py_item backup_result ''call_type'') (\<lambda>b.
                if b = PNone then Inr low_verdict
                else
                  bind_err (py_item primary_result ''call_type'') (\<lambda>p.
                    if py_eq b p then Inr (medium_verdict p) else Inr low_verdict))
            else
              bind_err (py_item primary_result ''call_type'') (\<lambda>p.
                bind_err (py_item backup_result ''call_type'') (\<lambda>b.
                  if py_eq p b \<and> p \<noteq> PNone then Inr (high_verdict p)
                  else if p \<noteq> PNone then Inr (medium_verdict p)
                  else Inr low_verdict))))"

subsection \<open>How a verdict is read\<close>

text \<open>
  The runners read a verdict as \<^verbatim>\<open>result["call_type"]\<close>,
  \<^verbatim>\<open>result.get("confidence", "unknown")\<close> and \<^verbatim>\<open>result.get("needs_human", False)\<close>
  (evaluator.py, run_robust_evaluation.py); a key the combiner left out reads as its
  default.
\<close>

definition verdict_label :: "pyval \<Rightarrow> error + pyval" where
  "verdict_label result = py_item result ''call_type''"

definition verdict_confidence :: "pyval \<Rightarrow> error + pyval" where
  "verdict_confidence result = py_get result ''confidence'' (PStr ''unknown'')"

definition verdict_needs_human :: "pyval \<Rightarrow> error + pyval" where
  "verdict_needs_human result = py_get result ''needs_human'' (PBool False)"

section \<open>Negative check\<close>

text \<open>
  Strings are lists of 8-bit characters. \<^verbatim>\<open>str.strip\<close> drops the whitespace at both ends
  and \<^verbatim>\<open>str.lower\<close> maps \<open>A\<close>..\<open>Z\<close> to \<open>a\<close>..\<open>z\<close>; characters beyond ASCII are
  left alone.
\<close>

definition py_isspace :: "char \<Rightarrow> bool" where
  "py_isspace c = ((of_char c :: nat) \<in> {9, 10, 11, 12, 13, 28, 29, 30, 31, 32})"

definition py_strip :: "string \<Rightarrow> string" where
  "py_strip s = rev (dropWhile py_isspace (rev (dropWhile py_isspace s)))"

definition lower_char :: "char \<Rightarrow> char" where
  "lower_char c =
     (if (65::nat) \<le> of_char c \<and> (of_char c :: nat) \<le> 90
      then char_of ((of_char c :: nat) + 32) else c)"

definition py_lower :: "string \<Rightarrow> string" where
  "py_lower s = map lower_char s"

text \<open>
  \<^verbatim>\<open>NegativeChecker.invoke\<close> (parsers/negative_checker.py). \<open>ask\<close> is the external
  collaborator together with the prompt construction: it gives the content of the
  response for an input text, or raises. \<^verbatim>\<open>"yes" in answer\<close> is \<open>sublist\<close>.
\<close>

definition NegativeChecker_invoke :: "(string \<Rightarrow> error + string) \<Rightarrow> string \<Rightarrow> error + string" where
  "NegativeChecker_invoke ask txt =
     bind_err (ask txt) (\<lambda>content.
       let answer = py_lower (py_strip content) in
       if sublist ''yes'' answer then Inr ''yes''
       else if sublist ''no'' answer then Inr ''no''
       else Inr ''yes'')"

text \<open>\<^verbatim>\<open>RobustCallClassifier.negative_checker\<close> (robust_evaluator.py).\<close>

definition negative_checker :: "(string \<Rightarrow> error + string) \<Rightarrow> string \<Rightarrow> error + string" where
  "negative_checker ask customer_input =
     bind_err (ask customer_input) (\<lambda>content.
       let answer = py_lower (py_strip content) in
       if sublist ''yes'' answer then Inr ''yes''
       else if sublist ''no'' answer then Inr ''no''
       else Inr ''yes'')"

section \<open>Metrics aggregator\<close>

text \<open>A dataset item \<^verbatim>\<open>{id, customer_input, type}\<close>; the runner reads \<^verbatim>\<open>id\<close> with a
  default.\<close>

record call =
  c_id :: "string option"
  customer_input :: string
  c_type :: string

record category_metric =
  precision :: rat
  recall :: rat
  f1 :: rat
  cat_count :: nat

record tier_metric =
  tier_count :: nat
  tier_correct :: nat
  tier_accuracy :: rat

record human_review =
  hr_count :: nat
  hr_percentage :: rat

record report =
  overall_accuracy :: rat
  correct :: nat
  total :: nat
  category_metrics :: "(string \<times> category_metric) list"
  confidence_metrics :: "(string \<times> tier_metric) list"
  human_review :: human_review

record metrics_inputs =
  m_calls :: "call list"
  m_results :: "pyval list"
  m_categories :: "string list option"

text \<open>\<^verbatim>\<open>xs[i]\<close> for an index out of \<^verbatim>\<open>range(...)\<close> and \<^verbatim>\<open>a / b\<close>: both can raise.\<close>

definition list_item :: "'a list \<Rightarrow> nat \<Rightarrow> error + 'a" where
  "list_item xs i = (if i < length xs then Inr (xs ! i) else Inl IndexError)"

definition py_truediv :: "rat \<Rightarrow> rat \<Rightarrow> error + rat" where
  "py_truediv a b = (if b = 0 then Inl ZeroDivisionError else Inr (a / b))"

text \<open>\<^verbatim>\<open>sum(1 for i in ... if cond(i))\<close>: the generator stops at the first exception.\<close>

fun count_where :: "('i \<Rightarrow> error + bool) \<Rightarrow> 'i list \<Rightarrow> error + nat" where
  "count_where cond [] = Inr 0"
| "count_where cond (i # rest) =
     bind_err (cond i) (\<lambda>b.
       bind_err (count_where cond rest) (\<lambda>n. Inr (if b then Suc n else n)))"

text \<open>\<^verbatim>\<open>calls[i]["type"] == results[i]["call_type"]\<close>\<close>

definition is_match :: "call list \<Rightarrow> pyval list \<Rightarrow> nat \<Rightarrow> error + bool" where
  "is_match calls results i =
     bind_err (list_item calls i) (\<lambda>c.
       bind_err (list_item results i) (\<lambda>r.
         bind_err (py_item r ''call_type'') (\<lambda>p. Inr (py_eq (PStr (c_type c)) p))))"

definition true_positives :: "call list \<Rightarrow> pyval list \<Rightarrow> nat \<Rightarrow> string \<Rightarrow> error + nat" where
  "true_positives calls results tot ct =
     count_where (\<lambda>i.
       bind_err (list_item calls i) (\<lambda>c.
         if c_type c = ct then
           bind_err (list_item results i) (\<lambda>r.
             bind_err (py_item r ''call_type'') (\<lambda>p. Inr (py_eq p (PStr ct))))
         else Inr False)) [0..<tot]"

definition false_negatives :: "call list \<Rightarrow> pyval list \<Rightarrow> nat \<Rightarrow> string \<Rightarrow> error + nat" where
  "false_negatives calls results tot ct =
     count_where (\<lambda>i.
       bind_err (list_item calls i) (\<lambda>c.
         if c_type c = ct then
           bind_err (list_item results i) (\<lambda>r.
             bind_err (py_item r ''call_type'') (\<lambda>p. Inr (\<not> py_eq p (PStr ct))))
         else Inr False)) [0..<tot]"

definition false_positives :: "call list \<Rightarrow> pyval list \<Rightarrow> nat \<Rightarrow> string \<Rightarrow> error + nat" where
  "false_positives calls results tot ct =
     count_where (\<lambda>i.
       bind_err (list_item calls i) (\<lambda>c.
         if c_type c \<noteq> ct then
           bind_err (list_item results i) (\<lambda>r.
             bind_err (py_item r ''call_type'') (\<lambda>p. Inr (py_eq p (PStr ct))))
         else Inr False)) [0..<tot]"

text \<open>The body of \<^verbatim>\<open>for call_type in categories\<close>: one entry of \<^verbatim>\<open>category_metrics\<close>.\<close>

definition category_entry :: "call list \<Rightarrow> pyval list \<Rightarrow> nat \<Rightarrow> string \<Rightarrow> error + category_metric" where
  "category_entry calls results tot ct =
     bind_err (true_positives calls results tot ct) (\<lambda>tp.
     bind_err (false_negatives calls results tot ct) (\<lambda>fn.
     bind_err (false_positives calls results tot ct) (\<lambda>fp.
     bind_err (if tp + fp > 0 then py_truediv (of_nat tp) (of_nat (tp + fp)) else Inr 0) (\<lambda>p.
     bind_err (if tp + fn > 0 then py_truediv (of_nat tp) (of_nat (tp + fn)) else Inr 0) (\<lambda>r.
     bind_err (if p + r > 0 then py_truediv (2 * (p * r)) (p + r) else Inr 0) (\<lambda>f.
       Inr \<lparr>precision = p, recall = r, f1 = f, cat_count = tp + fn\<rparr>))))))"

fun category_loop ::
  "call list \<Rightarrow> pyval list \<Rightarrow> nat \<Rightarrow> string list \<Rightarrow> (string \<times> category_metric) list
    \<Rightarrow> error + (string \<times> category_metric) list" where
  "category_loop calls results tot [] acc = Inr acc"
| "category_loop calls results tot (ct # rest) acc =
     bind_err (category_entry calls results tot ct) (\<lambda>m.
       category_loop calls results tot rest (AList.update ct m acc))"

text \<open>
  The confidence loop. \<^verbatim>\<open>confidence in confidence_metrics\<close> hashes the key first, so an
  unhashable value (a list, a dictionary) is a TypeError; only a string can be one of the
  four keys. The table holds \<open>(count, correct)\<close> per tier.
\<close>

fun py_hashable :: "pyval \<Rightarrow> bool" where
  "py_hashable (PList xs) = False"
| "py_hashable (PDict d) = False"
| "py_hashable _ = True"

definition confidence_init :: "(string \<times> nat \<times> nat) list" where
  "confidence_init = [(''high'', 0, 0), (''medium'', 0, 0), (''low'', 0, 0), (''unknown'', 0, 0)]"

definition confidence_step ::
  "call list \<Rightarrow> pyval list \<Rightarrow> (string \<times> nat \<times> nat) list \<Rightarrow> nat
    \<Rightarrow> error + (string \<times> nat \<times> nat) list" where
  "confidence_step calls results cm i =
     bind_err (list_item results i) (\<lambda>r.
     bind_err (py_get r ''confidence'' (PStr ''unknown'')) (\<lambda>confidence.
       if \<not> py_hashable confidence then Inl TypeError
       else (case confidence of
          PStr s \<Rightarrow>
            (case map_of cm s of
               None \<Rightarrow> Inr cm
             | Some (cnt, cor) \<Rightarrow>
                 bind_err (is_match calls results i) (\<lambda>m.
                   Inr (AList.update s (Suc cnt, if m then Suc cor else cor) cm)))
        | _ \<Rightarrow> Inr cm)))"

fun confidence_loop ::
  "call list \<Rightarrow> pyval list \<Rightarrow> (string \<times> nat \<times> nat) list \<Rightarrow> nat list
    \<Rightarrow> error + (string \<times> nat \<times> nat) list" where
  "confidence_loop calls results cm [] = Inr cm"
| "confidence_loop calls results cm (i # rest) =
     bind_err (confidence_step calls results cm i) (\<lambda>cm'.
       confidence_loop calls results cm' rest)"

text \<open>\<^verbatim>\<open>for confidence, metrics in confidence_metrics.items()\<close>: the accuracy of each tier.\<close>

fun tier_accuracies :: "(string \<times> nat \<times> nat) list \<Rightarrow> error + (string \<times> tier_metric) list" where
  "tier_accuracies [] = Inr []"
| "tier_accuracies ((k, cnt, cor) # rest) =
     bind_err (if cnt > 0 then py_truediv (of_nat cor) (of_nat cnt) else Inr 0) (\<lambda>a.
       bind_err (tier_accuracies rest) (\<lambda>ts.
         Inr ((k, \<lparr>tier_count = cnt, tier_correct = cor, tier_accuracy = a\<rparr>) # ts)))"

text \<open>\<^verbatim>\<open>EvaluationMetrics.invoke\<close> (metrics/evaluation_metrics.py).\<close>

definition EvaluationMetrics_invoke :: "metrics_inputs \<Rightarrow> error + report" where
  "EvaluationMetrics_invoke inputs =
     (let calls = m_calls inputs;
          results = m_results inputs;
          categories = (case m_categories inputs of None \<Rightarrow> [] | Some cs \<Rightarrow> cs);
          tot = length calls
      in
      bind_err (count_where (is_match calls results) [0..<tot]) (\<lambda>corr.
      bind_err (if tot > 0 then py_truediv (of_nat corr) (of_nat tot) else Inr 0) (\<lambda>accuracy.
      bind_err (category_loop calls results tot categories []) (\<lambda>cats.
      bind_err (confidence_loop calls results confidence_init [0..<tot]) (\<lambda>cm.
      bind_err (tier_accuracies cm) (\<lambda>tiers.
      bind_err (count_where (\<lambda>r. bind_err (py_get r ''needs_human'' (PBool False))
                                    (\<lambda>v. Inr (py_truthy v))) results) (\<lambda>needs_human_count.
      bind_err (if tot > 0 then py_truediv (of_nat needs_human_count) (of_nat tot) else Inr 0)
        (\<lambda>needs_human_percentage.
          Inr \<lparr>overall_accuracy = accuracy, correct = corr, total = tot,
               category_metrics = cats, confidence_metrics = tiers,
               human_review = \<lparr>hr_count = needs_human_count,
                                hr_percentage = needs_human_percentage\<rparr>\<rparr>))))))))"

text \<open>\<^verbatim>\<open>evaluate_accuracy\<close> (run_robust_evaluation.py) is the same body, line for line,
  over the module constant \<open>CALL_TYPES\<close>.\<close>

definition evaluate_accuracy :: "call list \<Rightarrow> pyval list \<Rightarrow> error + report" where
  "evaluate_accuracy calls results =
     EvaluationMetrics_invoke
       \<lparr>m_calls = calls, m_results = results, m_categories = Some CALL_TYPES\<rparr>"

section \<open>Evaluation runner\<close>

text \<open>\<^verbatim>\<open>d[k] = v\<close> and \<^verbatim>\<open>xs[:limit]\<close>.\<close>

fun py_setitem :: "pyval \<Rightarrow> string \<Rightarrow> pyval \<Rightarrow> error + pyval" where
  "py_setitem (PDict d) k v = Inr (PDict (AList.update k v d))"
| "py_setitem _ k v = Inl TypeError"

definition py_slice_to :: "'a list \<Rightarrow> int \<Rightarrow> 'a list" where
  "py_slice_to xs n = (if 0 \<le> n then take (nat n) xs else take (length xs - nat (- n)) xs)"

text \<open>
  A \<^verbatim>\<open>RobustEvaluator\<close> with its three parsers, each the external collaborator behind one
  prompt and one interpretation rule: a parser returns an opinion or raises.
\<close>

record RobustEvaluator =
  categories :: "string list"
  primary_parser :: "string \<Rightarrow> error + pyval"
  backup_parser :: "string \<Rightarrow> error + pyval"
  negative_parser :: "string \<Rightarrow> error + string"
  combiner :: StrategyCombiner

text \<open>\<^verbatim>\<open>RobustEvaluator.invoke\<close> (evaluator.py): parsers in the order of the dictionary,
  validation of the primary opinion, combination, then the \<^verbatim>\<open>_debug\<close> entry.\<close>

definition RobustEvaluator_invoke :: "RobustEvaluator \<Rightarrow> string \<Rightarrow> error + pyval" where
  "RobustEvaluator_invoke self txt =
     bind_err (primary_parser self txt) (\<lambda>p.
     bind_err (backup_parser self txt) (\<lambda>b.
     bind_err (negative_parser self txt) (\<lambda>n.
       let valid = SchemaValidator_invoke (categories self) p in
       bind_err (StrategyCombiner_invoke (combiner self)
                   \<lparr>parser_results = \<lparr>primary = Some p, backup = Some b, negative = Some n\<rparr>,
                    validation_result = valid, input_text = txt\<rparr>) (\<lambda>combined_result.
         py_setitem combined_result ''_debug''
           (PDict [(''parser_results'',
                    PDict [(''primary'', p), (''backup'', b), (''negative'', PStr n)]),
                   (''validation_result'', PBool valid)])))))"

text \<open>The body of the \<^verbatim>\<open>try\<close> block of \<^verbatim>\<open>batch_evaluate\<close>: the clean result of one call,
  or the exception that makes the runner skip it.\<close>

definition clean_result :: "RobustEvaluator \<Rightarrow> call \<Rightarrow> error + pyval" where
  "clean_result self c =
     bind_err (RobustEvaluator_invoke self (customer_input c)) (\<lambda>result.
     bind_err (py_item result ''call_type'') (\<lambda>label.
     bind_err (py_get result ''confidence'' (PStr ''unknown'')) (\<lambda>conf.
     bind_err (py_get result ''needs_human'' (PBool False)) (\<lambda>nh.
       let clean =
             [(''id'', PStr (case c_id c of None \<Rightarrow> [] | Some i \<Rightarrow> i)),
              (''customer_input'', PStr (customer_input c)),
              (''actual_type'', PStr (c_type c)),
              (''call_type'', label),
              (''confidence'', conf),
              (''needs_human'', nh),
              (''correct'', PBool (py_eq (PStr (c_type c)) label))]
       in
       bind_err (py_contains result ''_debug'') (\<lambda>has_debug.
       if \<not> has_debug then Inr (PDict clean)
       else
         bind_err (py_item result ''_debug'') (\<lambda>debug.
         bind_err (py_get debug ''parser_results'' (PDict [])) (\<lambda>prs1.
         bind_err (py_get prs1 ''primary'' (PDict [])) (\<lambda>pr.
         bind_err (py_get pr ''call_type'' PNone) (\<lambda>primary_label.
         bind_err (py_get debug ''parser_results'' (PDict [])) (\<lambda>prs2.
         bind_err (py_get prs2 ''backup'' (PDict [])) (\<lambda>bk.
         bind_err (py_get bk ''call_type'' PNone) (\<lambda>backup_label.
         bind_err (py_get debug ''parser_results'' (PDict [])) (\<lambda>prs3.
         bind_err (py_get prs3 ''negative'' (PStr [])) (\<lambda>neg.
         bind_err (py_get debug ''validation_result'' (PBool False)) (\<lambda>vr.
           Inr (PDict (AList.update ''debug''
                  (PDict [(''primary_result'', primary_label),
                          (''backup_result'', backup_label),
                          (''negative_check'', neg),
                          (''validation_result'', vr)]) clean)))))))))))))))))"

text \<open>\<^verbatim>\<open>for call in calls: try: ... results.append(clean_result) except Exception: ...\<close>\<close>

fun collect_results :: "(call \<Rightarrow> error + pyval) \<Rightarrow> call list \<Rightarrow> pyval list" where
  "collect_results f [] = []"
| "collect_results f (c # cs) =
     (case f c of Inl e \<Rightarrow> collect_results f cs | Inr r \<Rightarrow> r # collect_results f cs)"

record batch_report =
  br_results :: "pyval list"
  br_metrics :: report

text \<open>\<^verbatim>\<open>RobustEvaluator.batch_evaluate\<close> (evaluator.py).\<close>

definition batch_evaluate :: "RobustEvaluator \<Rightarrow> call list \<Rightarrow> int option \<Rightarrow> error + batch_report" where
  "batch_evaluate self calls0 limit =
     (let calls = (case limit of None \<Rightarrow> calls0 | Some n \<Rightarrow> py_slice_to calls0 n);
          res = collect_results (clean_result self) calls
      in
      bind_err (EvaluationMetrics_invoke
                  \<lparr>m_calls = calls, m_results = res, m_categories = Some (categories self)\<rparr>)
        (\<lambda>m. Inr \<lparr>br_results = res, br_metrics = m\<rparr>))"

subsection \<open>Script variant\<close>

text \<open>
  \<^verbatim>\<open>RobustCallClassifier.classify\<close> (robust_evaluator.py) with its two parsers and the
  collaborator of the negative check as parameters. When \<open>combine_results\<close> hands back
  the backup opinion, the \<^verbatim>\<open>_debug\<close> entry is written into that same dictionary; the
  entry holds the opinions as they were read.
\<close>

definition classify ::
  "(string \<Rightarrow> error + pyval) \<Rightarrow> (string \<Rightarrow> error + pyval) \<Rightarrow> (string \<Rightarrow> error + string)
    \<Rightarrow> string \<Rightarrow> error + pyval" where
  "classify primary_p backup_p ask txt =
     bind_err (primary_p txt) (\<lambda>p.
     bind_err (backup_p txt) (\<lambda>b.
     bind_err (negative_checker ask txt) (\<lambda>n.
       let valid = validate_call_type p in
       bind_err (combine_results p b n valid txt) (\<lambda>result.
         py_setitem result ''_debug''
           (PDict [(''primary_result'', p), (''backup_result'', b),
                   (''negative_check'', PStr n), (''validation_result'', PBool valid)])))))"

text \<open>The body of the \<^verbatim>\<open>try\<close> block of \<^verbatim>\<open>main\<close> (run_robust_evaluation.py); here
  \<^verbatim>\<open>call["id"]\<close> is a subscript.\<close>

definition script_clean_result :: "(string \<Rightarrow> error + pyval) \<Rightarrow> call \<Rightarrow> error + pyval" where
  "script_clean_result classifier c =
     bind_err (classifier (customer_input c)) (\<lambda>result.
     bind_err (case c_id c of None \<Rightarrow> Inl KeyError | Some i \<Rightarrow> Inr i) (\<lambda>ident.
     bind_err (py_item result ''call_type'') (\<lambda>label.
     bind_err (py_get result ''confidence'' (PStr ''unknown'')) (\<lambda>conf.
     bind_err (py_get result ''needs_human'' (PBool False)) (\<lambda>nh.
       let clean =
             [(''id'', PStr ident),
              (''customer_input'', PStr (customer_input c)),
              (''actual_type'', PStr (c_type c)),
              (''call_type'', label),
              (''confidence'', conf),
              (''needs_human'', nh),
              (''correct'', PBool (py_eq (PStr (c_type c)) label))]
       in
       bind_err (py_contains result ''_debug'') (\<lambda>has_debug.
       if \<not> has_debug then Inr (PDict clean)
       else
         bind_err (py_item result ''_debug'') (\<lambda>debug.
         bind_err (py_get debug ''primary_result'' (PDict [])) (\<lambda>pr.
         bind_err (py_get pr ''call_type'' PNone) (\<lambda>primary_label.
         bind_err (py_get debug ''backup_result'' (PDict [])) (\<lambda>bk.
         bind_err (py_get bk ''call_type'' PNone) (\<lambda>backup_label.
         bind_err (py_get debug ''negative_check'' (PStr [])) (\<lambda>neg.
         bind_err (py_get debug ''validation_result'' (PBool False)) (\<lambda>vr.
           Inr (PDict (AList.update ''debug''
                  (PDict [(''primary_result'', primary_label),
                          (''backup_result'', backup_label),
                          (''negative_check'', neg),
                          (''validation_result'', vr)]) clean)))))))))))))))"

text \<open>\<^verbatim>\<open>main\<close> (run_robust_evaluation.py) from the loaded calls to the data it saves.\<close>

definition run_evaluation ::
  "(string \<Rightarrow> error + pyval) \<Rightarrow> call list \<Rightarrow> int option \<Rightarrow> error + batch_report" where
  "run_evaluation classifier calls0 limit =
     (let calls = (case limit of
                     None \<Rightarrow> calls0
                   | Some n \<Rightarrow> if n \<noteq> 0 then py_slice_to calls0 n else calls0);
          res = collect_results (script_clean_result classifier) calls
      in
      bind_err (evaluate_accuracy calls res)
        (\<lambda>m. Inr \<lparr>br_results = res, br_metrics = m\<rparr>))"

section \<open>Basic facts\<close>

lemma bind_err_Inl [simp]: "bind_err (Inl e) f = Inl e"
  by (simp add: bind_err_def)

lemma bind_err_Inr [simp]: "bind_err (Inr x) f = f x"
  by (simp add: bind_err_def)

lemma bind_err_eq_Inr: "bind_err m f = Inr y \<longleftrightarrow> (\<exists>x. m = Inr x \<and> f x = Inr y)"
  by (cases m) simp_all

lemma py_eq_PNone_right [simp]: "py_eq x PNone = (x = PNone)"
  by (cases x) simp_all

lemma py_eq_PStr_right [simp]: "py_eq x (PStr s) = (x = PStr s)"
  by (cases x) auto

lemma py_in_list_strings: "py_in_list x (map PStr cs) \<longleftrightarrow> (\<exists>c \<in> set cs. x = PStr c)"
  by (auto simp: py_in_list_def list_ex_iff)

lemma verdict_low [simp]:
  "verdict_label low_verdict = Inr PNone"
  "verdict_confidence low_verdict = Inr (PStr ''low'')"
  "verdict_needs_human low_verdict = Inr (PBool True)"
  by (simp_all add: low_verdict_def verdict_label_def verdict_confidence_def
      verdict_needs_human_def dict_item_def dict_get_def)

lemma verdict_medium [simp]:
  "verdict_label (medium_verdict l) = Inr l"
  "verdict_confidence (medium_verdict l) = Inr (PStr ''medium'')"
  "verdict_needs_human (medium_verdict l) = Inr (PBool False)"
  by (simp_all add: medium_verdict_def verdict_label_def verdict_confidence_def
      verdict_needs_human_def dict_item_def dict_get_def)

lemma verdict_high [simp]:
  "verdict_label (high_verdict l) = Inr l"
  "verdict_confidence (high_verdict l) = Inr (PStr ''high'')"
  "verdict_needs_human (high_verdict l) = Inr (PBool False)"
  by (simp_all add: high_verdict_def verdict_label_def verdict_confidence_def
      verdict_needs_human_def dict_item_def dict_get_def)

text \<open>With two dictionaries as opinions, \<open>StrategyCombiner_invoke\<close> is the decision table.\<close>

lemma StrategyCombiner_invoke_dicts:
  assumes "primary (parser_results inputs) = Some (PDict dp)"
    and "backup (parser_results inputs) = Some (PDict db)"
  shows "StrategyCombiner_invoke self inputs =
    (let p = dict_get dp ''call_type'' PNone; b = dict_get db ''call_type'' PNone;
         n = (case negative (parser_results inputs) of None \<Rightarrow> ''yes'' | Some n \<Rightarrow> n) in
     if \<not> validation_result inputs then
       (if b \<noteq> PNone then Inr (medium_verdict b) else Inr low_verdict)
     else if n = ''no'' \<and> p \<noteq> PNone then
       (if b = PNone then Inr low_verdict
        else if py_eq b p then Inr (medium_verdict p) else Inr low_verdict)
     else if py_eq p b \<and> p \<noteq> PNone then Inr (high_verdict p)
     else if p \<noteq> PNone then Inr (medium_verdict p)
     else Inr low_verdict)"
  using assms
  by (auto simp: StrategyCombiner_invoke_def Let_def dict_item_def dict_get_def split: option.splits)

lemma py_item_of_get:
  "py_get x k PNone = Inr b \<Longrightarrow> b \<noteq> PNone \<Longrightarrow> py_item x k = Inr b"
  by (cases x) (auto simp: dict_get_def dict_item_def split: option.splits)

lemma StrategyCombiner_invoke_cases:
  assumes "StrategyCombiner_invoke self inputs = Inr v"
  shows "v = low_verdict \<or> (\<exists>l. l \<noteq> PNone \<and> (v = medium_verdict l \<or> v = high_verdict l))"
proof (cases "validation_result inputs")
  case False
  let ?bk = "case backup (parser_results inputs) of
               None \<Rightarrow> PDict [(''call_type'', PNone)] | Some b \<Rightarrow> b"
  from assms False obtain x where g: "py_get ?bk ''call_type'' PNone = Inr x"
    and rest: "(if x \<noteq> PNone
                then bind_err (py_item ?bk ''call_type'') (\<lambda>l. Inr (medium_verdict l))
                else Inr low_verdict) = Inr v"
    by (auto simp: StrategyCombiner_invoke_def Let_def bind_err_eq_Inr)
  show ?thesis
  proof (cases "x = PNone")
    case True
    with rest show ?thesis by simp
  next
    case False
    with g have "py_item ?bk ''call_type'' = Inr x" by (rule py_item_of_get)
    with rest False show ?thesis by auto
  qed
next
  case True
  with assms show ?thesis
    by (auto simp: StrategyCombiner_invoke_def Let_def bind_err_eq_Inr split: if_splits)
qed

lemma StrategyCombiner_needs_human_iff_null:
  assumes "StrategyCombiner_invoke self inputs = Inr v"
  shows "\<exists>l nh. verdict_label v = Inr l \<and> verdict_needs_human v = Inr (PBool nh) \<and> (nh \<longleftrightarrow> l = PNone)"
  using StrategyCombiner_invoke_cases [OF assms] by auto

lemma combine_results_valid_cases:
  assumes "combine_results p b n True t = Inr v"
  shows "v = low_verdict \<or> (\<exists>l. l \<noteq> PNone \<and> (v = medium_verdict l \<or> v = high_verdict l))"
  using assms
  by (auto simp: combine_results_def bind_err_eq_Inr split: if_splits)

lemma StrategyCombiner_total_on_dicts:
  assumes "primary (parser_results inputs) = Some (PDict dp)"
    and "backup (parser_results inputs) = Some (PDict db)"
  shows "\<exists>v. StrategyCombiner_invoke self inputs = Inr v"
  by (simp add: StrategyCombiner_invoke_dicts [OF assms] Let_def)

lemma StrategyCombiner_invalid_only_backup_label:
  assumes "\<not> validation_result i1" "\<not> validation_result i2"
    and "backup (parser_results i1) = Some (PDict d1)"
    and "backup (parser_results i2) = Some (PDict d2)"
    and "dict_get d1 ''call_type'' PNone = dict_get d2 ''call_type'' PNone"
  shows "StrategyCombiner_invoke s1 i1 = StrategyCombiner_invoke s2 i2"
  using assms
  by (auto simp: StrategyCombiner_invoke_def Let_def dict_item_def dict_get_def split: option.splits)

section \<open>The combiner\<close>

text \<open>
  Claim C1. Every verdict of the consensus combiner has \<open>needs_human\<close> true exactly when
  its label is null. \<open>StrategyCombiner_invoke\<close> keeps this
  (\<open>StrategyCombiner_needs_human_iff_null\<close>). \<open>combine_results\<close> breaks it: with an
  invalid primary opinion and a backup opinion \<^verbatim>\<open>{"call_type": None}\<close>, which passes
  \<open>validate_call_type\<close>, it returns the backup opinion itself; its label is null and its
  \<open>needs_human\<close> reads false.
\<close>

theorem combine_results_null_backup_unflagged:
  "validate_call_type (PDict [(''call_type'', PStr ''REFUND'')]) = False \<and>
   combine_results (PDict [(''call_type'', PStr ''REFUND'')]) (PDict [(''call_type'', PNone)])
      ''yes'' False ''I want my money back'' = Inr (PDict [(''call_type'', PNone)]) \<and>
   verdict_label (PDict [(''call_type'', PNone)]) = Inr PNone \<and>
   verdict_needs_human (PDict [(''call_type'', PNone)]) = Inr (PBool False)"
  by (simp add: combine_results_def verdict_label_def verdict_needs_human_def dict_item_def
      dict_get_def dict_has_def py_in_list_def CALL_TYPES_def)

text \<open>
  Claim C2, as stated, fails on \<open>combine_results\<close>: a backup label outside
  \<open>CALL_TYPES\<close> is non-null, and the verdict is the low one, not
  \<^verbatim>\<open>{label: backup.label, confidence: medium}\<close>.
\<close>

theorem combine_results_rejects_unlisted_backup_label:
  "validate_call_type (PDict [(''call_type'', PStr ''WATER'')]) = False \<and>
   combine_results (PDict [(''call_type'', PStr ''WATER'')]) (PDict [(''call_type'', PStr ''REFUND'')])
      ''yes'' False ''I want my money back'' = Inr low_verdict \<and>
   verdict_label low_verdict = Inr PNone \<and>
   verdict_confidence low_verdict = Inr (PStr ''low'') \<and>
   verdict_needs_human low_verdict = Inr (PBool True)"
  by (simp add: combine_results_def dict_item_def
      dict_get_def dict_has_def py_in_list_def CALL_TYPES_def)

text \<open>
  Claim C2, amended. When the primary opinion is invalid, \<open>StrategyCombiner_invoke\<close>
  returns \<^verbatim>\<open>{call_type: backup.label, confidence: medium}\<close> (no \<open>needs_human\<close> key, read as
  false) if backup's label is non-null and \<^verbatim>\<open>{null, low, needs_human: true}\<close> if it is
  null; \<open>combine_results\<close> returns \<^verbatim>\<open>{null, low, needs_human: true}\<close> if the backup
  opinion fails \<open>validate_call_type\<close>, and otherwise a verdict that carries backup's
  label.
\<close>

theorem invalid_primary_uses_backup:
  "(\<not> validation_result inputs \<and> backup (parser_results inputs) = Some (PDict db) \<longrightarrow>
      StrategyCombiner_invoke self inputs =
        Inr (if dict_get db ''call_type'' PNone \<noteq> PNone
             then medium_verdict (dict_get db ''call_type'' PNone) else low_verdict)) \<and>
   (\<not> validate_call_type b \<longrightarrow> combine_results p b n False t = Inr low_verdict) \<and>
   (validate_call_type b \<longrightarrow>
      (\<exists>v l. combine_results p b n False t = Inr v \<and> py_item b ''call_type'' = Inr l \<and>
             verdict_label v = Inr l)) \<and>
   verdict_label low_verdict = Inr PNone \<and>
   verdict_confidence low_verdict = Inr (PStr ''low'') \<and>
   verdict_needs_human low_verdict = Inr (PBool True) \<and>
   verdict_label (medium_verdict bl) = Inr bl \<and>
   verdict_confidence (medium_verdict bl) = Inr (PStr ''medium'') \<and>
   verdict_needs_human (medium_verdict bl) = Inr (PBool False)"
proof (intro conjI impI)
  assume "\<not> validation_result inputs \<and> backup (parser_results inputs) = Some (PDict db)"
  then show "StrategyCombiner_invoke self inputs =
        Inr (if dict_get db ''call_type'' PNone \<noteq> PNone
             then medium_verdict (dict_get db ''call_type'' PNone) else low_verdict)"
    by (auto simp: StrategyCombiner_invoke_def Let_def dict_item_def dict_get_def
        split: option.splits)
next
  assume "\<not> validate_call_type b"
  then show "combine_results p b n False t = Inr low_verdict"
    by (simp add: combine_results_def)
next
  assume v: "validate_call_type b"
  then obtain d where b: "b = PDict d" by (cases b) simp_all
  with v obtain l where "dict_item d ''call_type'' = Inr l"
    by (auto simp: dict_has_def dict_item_def split: if_splits option.splits)
  with v b show "\<exists>v l. combine_results p b n False t = Inr v \<and> py_item b ''call_type'' = Inr l \<and>
             verdict_label v = Inr l"
    by (auto simp: combine_results_def verdict_label_def)
qed simp_all

theorem invalid_primary_uses_backup_witness:
  "StrategyCombiner_invoke (StrategyCombiner_init None)
     \<lparr>parser_results = \<lparr>primary = Some (PList []),
                         backup = Some (PDict [(''call_type'', PStr ''CLAIMS'')]),
                         negative = Some ''yes''\<rparr>,
      validation_result = False, input_text = ''my claim''\<rparr> =
     Inr (medium_verdict (PStr ''CLAIMS'')) \<and>
   combine_results (PList []) (PDict [(''call_type'', PStr ''REFUND'')]) ''yes'' False ''my claim'' =
     Inr low_verdict \<and>
   (\<exists>v. combine_results (PList []) (PDict [(''call_type'', PStr ''CLAIMS'')]) ''yes'' False
          ''my claim'' = Inr v \<and> verdict_label v = Inr (PStr ''CLAIMS''))"
  using invalid_primary_uses_backup
      [of "\<lparr>parser_results = \<lparr>primary = Some (PList []),
                         backup = Some (PDict [(''call_type'', PStr ''CLAIMS'')]),
                         negative = Some ''yes''\<rparr>,
             validation_result = False, input_text = ''my claim''\<rparr>"
          "[(''call_type'', PStr ''CLAIMS'')]" "StrategyCombiner_init None"
          "PDict [(''call_type'', PStr ''REFUND'')]" "PList []" "''yes''" "''my claim''"]
    invalid_primary_uses_backup
      [of "\<lparr>parser_results = \<lparr>primary = Some (PList []),
                         backup = Some (PDict [(''call_type'', PStr ''CLAIMS'')]),
                         negative = Some ''yes''\<rparr>,
             validation_result = False, input_text = ''my claim''\<rparr>"
          "[(''call_type'', PStr ''CLAIMS'')]" "StrategyCombiner_init None"
          "PDict [(''call_type'', PStr ''CLAIMS'')]" "PList []" "''yes''" "''my claim''"]
  by (auto simp: dict_get_def dict_item_def dict_has_def py_in_list_def CALL_TYPES_def)

text \<open>
  Claim C4. The combiner returns a verdict for every input and never raises.
  \<open>StrategyCombiner_invoke\<close> does so on any two dictionaries
  (\<open>StrategyCombiner_total_on_dicts\<close>). \<open>combine_results\<close> subscripts the opinions: a
  valid primary opinion with a backup dictionary that has no \<^verbatim>\<open>call_type\<close> key raises
  KeyError.
\<close>

theorem combine_results_missing_label_raises:
  "validate_call_type (PDict [(''call_type'', PStr ''BILLING'')]) = True \<and>
   combine_results (PDict [(''call_type'', PStr ''BILLING'')]) (PDict [])
      ''yes'' True ''my bill is wrong'' = Inl KeyError"
  by (simp add: combine_results_def dict_item_def dict_has_def py_in_list_def CALL_TYPES_def)

text \<open>
  The rule for a negative check \<^verbatim>\<open>no\<close> against a non-null primary label, where both
  combiners follow it: \<open>StrategyCombiner_invoke\<close> on any two dictionaries (a label is
  what \<^verbatim>\<open>.get\<close> reads, null when the key is missing), \<open>combine_results\<close> on opinions
  that carry the \<^verbatim>\<open>call_type\<close> key. Equality of labels is Python's \<^verbatim>\<open>==\<close>.
\<close>

lemma negative_contradiction_rule:
  "(validation_result inputs \<and> negative (parser_results inputs) = Some ''no'' \<and>
    primary (parser_results inputs) = Some (PDict dp) \<and>
    backup (parser_results inputs) = Some (PDict db) \<and>
    dict_get dp ''call_type'' PNone \<noteq> PNone \<longrightarrow>
      StrategyCombiner_invoke self inputs =
        Inr (if dict_get db ''call_type'' PNone = PNone \<or>
                \<not> py_eq (dict_get db ''call_type'' PNone) (dict_get dp ''call_type'' PNone)
             then low_verdict else medium_verdict (dict_get dp ''call_type'' PNone))) \<and>
   (py_item p ''call_type'' = Inr pl \<and> py_item b ''call_type'' = Inr bl \<and> pl \<noteq> PNone \<longrightarrow>
      combine_results p b ''no'' True t =
        Inr (if bl = PNone \<or> \<not> py_eq bl pl then low_verdict else medium_verdict pl)) \<and>
   verdict_label low_verdict = Inr PNone \<and>
   verdict_confidence low_verdict = Inr (PStr ''low'') \<and>
   verdict_needs_human low_verdict = Inr (PBool True) \<and>
   verdict_label (medium_verdict pl) = Inr pl \<and>
   verdict_confidence (medium_verdict pl) = Inr (PStr ''medium'') \<and>
   verdict_needs_human (medium_verdict pl) = Inr (PBool False)"
  by (auto simp: StrategyCombiner_invoke_dicts Let_def combine_results_def)

lemma negative_contradiction_rule_example:
  "StrategyCombiner_invoke (StrategyCombiner_init None)
     \<lparr>parser_results = \<lparr>primary = Some (PDict [(''call_type'', PStr ''BILLING'')]),
                         backup = Some (PDict [(''call_type'', PStr ''BILLING'')]),
                         negative = Some ''no''\<rparr>,
      validation_result = True, input_text = ''my bill''\<rparr> =
     Inr (medium_verdict (PStr ''BILLING'')) \<and>
   combine_results (PDict [(''call_type'', PStr ''BILLING'')])
     (PDict [(''call_type'', PStr ''CLAIMS'')]) ''no'' True ''my bill'' = Inr low_verdict"
  using negative_contradiction_rule
      [of "\<lparr>parser_results = \<lparr>primary = Some (PDict [(''call_type'', PStr ''BILLING'')]),
                         backup = Some (PDict [(''call_type'', PStr ''BILLING'')]),
                         negative = Some ''no''\<rparr>,
             validation_result = True, input_text = ''my bill''\<rparr>"
          "[(''call_type'', PStr ''BILLING'')]" "[(''call_type'', PStr ''BILLING'')]"
          "StrategyCombiner_init None"
          "PDict [(''call_type'', PStr ''BILLING'')]" "PStr ''BILLING''"
          "PDict [(''call_type'', PStr ''CLAIMS'')]" "PStr ''CLAIMS''" "''my bill''"]
  by (simp add: dict_get_def dict_item_def)

text \<open>
  Claim C5. With a valid primary opinion, a negative check \<^verbatim>\<open>no\<close> and a non-null primary
  label, the verdict is \<^verbatim>\<open>{null, low, needs_human: true}\<close> if backup's label is null or
  differs from primary's, and \<^verbatim>\<open>{primary.label, medium}\<close> if the two labels are equal.
  \<open>StrategyCombiner_invoke\<close> does so on any two dictionaries
  (\<open>negative_contradiction_rule\<close>). \<open>combine_results\<close> does not: a backup dictionary
  without the \<^verbatim>\<open>call_type\<close> key has no label, the library combiner returns the low verdict
  for it, and \<open>combine_results\<close> raises KeyError on \<^verbatim>\<open>backup_result['call_type']\<close>.
\<close>

theorem combine_results_negative_check_missing_backup_label:
  "validate_call_type (PDict [(''call_type'', PStr ''BILLING'')]) = True \<and>
   py_get (PDict []) ''call_type'' PNone = Inr PNone \<and>
   combine_results (PDict [(''call_type'', PStr ''BILLING'')]) (PDict [])
      ''no'' True ''my bill is wrong'' = Inl KeyError \<and>
   StrategyCombiner_invoke (StrategyCombiner_init None)
     \<lparr>parser_results = \<lparr>primary = Some (PDict [(''call_type'', PStr ''BILLING'')]),
                         backup = Some (PDict []),
                         negative = Some ''no''\<rparr>,
      validation_result = True, input_text = ''my bill is wrong''\<rparr> = Inr low_verdict"
  by (simp add: combine_results_def StrategyCombiner_invoke_def dict_item_def dict_get_def
      dict_has_def py_in_list_def CALL_TYPES_def)

text \<open>
  Claim C6. With an invalid primary opinion the verdict depends on backup's label only.
  \<open>StrategyCombiner_invoke\<close> keeps this (\<open>StrategyCombiner_invalid_only_backup_label\<close>).
  \<open>combine_results\<close> returns the backup opinion itself, so two backup opinions with the
  same label and different other fields give different verdicts: here the confidence
  reads \<^verbatim>\<open>unknown\<close> for one and \<^verbatim>\<open>high\<close> for the other.
\<close>

theorem combine_results_leaks_backup_fields:
  "py_item (PDict [(''call_type'', PStr ''CLAIMS'')]) ''call_type'' =
     py_item (PDict [(''call_type'', PStr ''CLAIMS''), (''confidence'', PStr ''high'')]) ''call_type'' \<and>
   combine_results (PDict [(''call_type'', PStr ''WATER'')]) (PDict [(''call_type'', PStr ''CLAIMS'')])
      ''yes'' False ''my claim'' = Inr (PDict [(''call_type'', PStr ''CLAIMS'')]) \<and>
   combine_results (PDict [(''call_type'', PStr ''WATER'')])
      (PDict [(''call_type'', PStr ''CLAIMS''), (''confidence'', PStr ''high'')])
      ''yes'' False ''my claim'' = Inr (PDict [(''call_type'', PStr ''CLAIMS''), (''confidence'', PStr ''high'')]) \<and>
   verdict_confidence (PDict [(''call_type'', PStr ''CLAIMS'')]) = Inr (PStr ''unknown'') \<and>
   verdict_confidence (PDict [(''call_type'', PStr ''CLAIMS''), (''confidence'', PStr ''high'')]) = Inr (PStr ''high'')"
  by (simp add: combine_results_def verdict_confidence_def dict_item_def
      dict_get_def dict_has_def py_in_list_def CALL_TYPES_def)

text \<open>
  Claim C10. The \<open>confidence_thresholds\<close> of a \<open>StrategyCombiner\<close> have no influence on
  the verdict: two combiners, however constructed, return the same result on every input.
\<close>

theorem confidence_thresholds_unused:
  "StrategyCombiner_invoke (StrategyCombiner_init t1) inputs =
     StrategyCombiner_invoke (StrategyCombiner_init t2) inputs \<and>
   StrategyCombiner_invoke c1 inputs = StrategyCombiner_invoke c2 inputs"
  by (simp add: StrategyCombiner_invoke_def)

section \<open>The schema validator\<close>

text \<open>
  Claim C8. On any value, the validator returns true exactly when the value is a
  dictionary with a \<^verbatim>\<open>call_type\<close> entry that is null or a string of the category list;
  being a total boolean function, it never raises.
\<close>

theorem validator_characterisation:
  "(SchemaValidator_invoke cats x \<longleftrightarrow>
      (\<exists>d l. x = PDict d \<and> map_of d ''call_type'' = Some l \<and>
             (l = PNone \<or> (\<exists>c \<in> set cats. l = PStr c)))) \<and>
   (validate_call_type x \<longleftrightarrow>
      (\<exists>d l. x = PDict d \<and> map_of d ''call_type'' = Some l \<and>
             (l = PNone \<or> (\<exists>c \<in> set CALL_TYPES. l = PStr c))))"
  by (cases x) (auto simp: dict_has_def dict_item_def py_in_list_strings split: option.splits)

theorem validator_characterisation_witness:
  "SchemaValidator_invoke [''BILLING'', ''CLAIMS''] (PDict [(''call_type'', PStr ''BILLING'')]) \<and>
   \<not> SchemaValidator_invoke [''BILLING'', ''CLAIMS''] (PDict [(''call_type'', PInt 3)]) \<and>
   \<not> validate_call_type (PStr ''BILLING'') \<and>
   validate_call_type (PDict [(''call_type'', PNone)])"
  using validator_characterisation
      [of "[''BILLING'', ''CLAIMS'']" "PDict [(''call_type'', PStr ''BILLING'')]"]
    validator_characterisation [of "[''BILLING'', ''CLAIMS'']" "PDict [(''call_type'', PInt 3)]"]
    validator_characterisation [of "[]" "PStr ''BILLING''"]
    validator_characterisation [of "[]" "PDict [(''call_type'', PNone)]"]
  by (simp add: dict_has_def dict_item_def py_in_list_def)

section \<open>The negative check\<close>

lemma sublist_drop_left:
  assumes "sublist p (a @ r)" and "set a \<inter> set p = {}" and "p \<noteq> []"
  shows "sublist p r"
  using assms
proof (induction a)
  case Nil
  then show ?case by simp
next
  case (Cons x a)
  from Cons.prems(3) obtain y ys where p: "p = y # ys" by (cases p) auto
  from Cons.prems(2) p have "x \<noteq> y" by auto
  with p have "\<not> prefix p (x # a @ r)" by simp
  with Cons.prems(1) have "sublist p (a @ r)" by (simp add: sublist_Cons_right)
  with Cons show ?case by auto
qed

lemma sublist_drop_right:
  assumes "sublist p (r @ c)" and "set c \<inter> set p = {}" and "p \<noteq> []"
  shows "sublist p r"
proof -
  from assms(1) have "sublist (rev p) (rev c @ rev r)"
    by (metis rev_append sublist_rev)
  with assms(2,3) have "sublist (rev p) (rev r)"
    by (intro sublist_drop_left [of "rev p" "rev c" "rev r"]) auto
  then show ?thesis by simp
qed

lemma py_strip_decomp:
  "\<exists>a c. s = a @ py_strip s @ c \<and> (\<forall>x \<in> set a. py_isspace x) \<and> (\<forall>x \<in> set c. py_isspace x)"
proof -
  let ?t = "dropWhile py_isspace s"
  have 1: "s = takeWhile py_isspace s @ ?t" by simp
  have "rev (takeWhile py_isspace (rev ?t) @ dropWhile py_isspace (rev ?t)) = rev (rev ?t)"
    by (simp only: takeWhile_dropWhile_id)
  then have 2: "?t = py_strip s @ rev (takeWhile py_isspace (rev ?t))"
    by (simp only: rev_append rev_rev_ident py_strip_def)
  have 3: "\<forall>x \<in> set (takeWhile py_isspace s). py_isspace x"
    by (auto dest: set_takeWhileD)
  have 4: "\<forall>x \<in> set (rev (takeWhile py_isspace (rev ?t))). py_isspace x"
    by (auto dest: set_takeWhileD)
  from 1 2 have "s = takeWhile py_isspace s @ py_strip s @ rev (takeWhile py_isspace (rev ?t))"
    by simp
  with 3 4 show ?thesis by blast
qed

lemma lower_char_space: "py_isspace x \<Longrightarrow> lower_char x = x"
  by (auto simp: py_isspace_def lower_char_def)

lemma sublist_lower_strip:
  assumes "p \<noteq> []" and "\<forall>x \<in> set p. \<not> py_isspace x"
  shows "sublist p (py_lower (py_strip s)) = sublist p (py_lower s)"
proof -
  obtain a c where s: "s = a @ py_strip s @ c"
    and a: "\<forall>x \<in> set a. py_isspace x" and c: "\<forall>x \<in> set c. py_isspace x"
    using py_strip_decomp by blast
  have la: "set (py_lower a) \<inter> set p = {}"
    using a assms(2) by (auto simp: py_lower_def lower_char_space)
  have lc: "set (py_lower c) \<inter> set p = {}"
    using c assms(2) by (auto simp: py_lower_def lower_char_space)
  have eq: "py_lower s = py_lower a @ py_lower (py_strip s) @ py_lower c"
    using s by (metis py_lower_def map_append)
  show ?thesis
  proof
    assume "sublist p (py_lower (py_strip s))"
    then show "sublist p (py_lower s)"
      unfolding eq by (meson sublist_append sublist_order.order_trans sublist_appendI)
  next
    assume "sublist p (py_lower s)"
    then have "sublist p (py_lower a @ (py_lower (py_strip s) @ py_lower c))"
      by (simp add: eq)
    then have "sublist p (py_lower (py_strip s) @ py_lower c)"
      using la assms(1) by (rule sublist_drop_left)
    then show "sublist p (py_lower (py_strip s))"
      using lc assms(1) by (rule sublist_drop_right)
  qed
qed

lemma yes_no_not_space:
  "\<forall>x \<in> set ''yes''. \<not> py_isspace x" "\<forall>x \<in> set ''no''. \<not> py_isspace x"
  by (simp_all add: py_isspace_def)

text \<open>
  Claim C9. For every response of the collaborator, the negative check answers \<^verbatim>\<open>yes\<close>
  if the lower-cased response contains \<^verbatim>\<open>yes\<close>, otherwise \<^verbatim>\<open>no\<close> if it contains \<^verbatim>\<open>no\<close>,
  otherwise \<^verbatim>\<open>yes\<close>. (The source strips the response first; that changes nothing.)
\<close>

theorem negative_check_rule:
  "(ask txt = Inr response \<longrightarrow>
     NegativeChecker_invoke ask txt =
       Inr (if sublist ''yes'' (py_lower response) then ''yes''
            else if sublist ''no'' (py_lower response) then ''no'' else ''yes'')) \<and>
   (ask txt = Inr response \<longrightarrow>
     negative_checker ask txt =
       Inr (if sublist ''yes'' (py_lower response) then ''yes''
            else if sublist ''no'' (py_lower response) then ''no'' else ''yes''))"
  by (simp add: NegativeChecker_invoke_def negative_checker_def Let_def
      sublist_lower_strip yes_no_not_space)

theorem negative_check_rule_witness:
  "NegativeChecker_invoke (\<lambda>t. Inr ''  No, YES it does. '') ''x'' = Inr ''yes'' \<and>
   negative_checker (\<lambda>t. Inr ''I do not kNOw'') ''x'' = Inr ''no'' \<and>
   NegativeChecker_invoke (\<lambda>t. Inr ''maybe'') ''x'' = Inr ''yes''"
proof -
  have e1: "sublist ''yes'' (py_lower ''  No, YES it does. '')" by code_simp
  have e2: "\<not> sublist ''yes'' (py_lower ''I do not kNOw'')"
    and e3: "sublist ''no'' (py_lower ''I do not kNOw'')" by code_simp+
  have e4: "\<not> sublist ''yes'' (py_lower ''maybe'')"
    and e5: "\<not> sublist ''no'' (py_lower ''maybe'')" by code_simp+
  show ?thesis
    using negative_check_rule [of "\<lambda>t. Inr ''  No, YES it does. ''" "''x''" "''  No, YES it does. ''"]
      negative_check_rule [of "\<lambda>t. Inr ''I do not kNOw''" "''x''" "''I do not kNOw''"]
      negative_check_rule [of "\<lambda>t. Inr ''maybe''" "''x''" "''maybe''"]
    by (simp add: e1 e2 e3 e4 e5)
qed

section \<open>The metrics aggregator\<close>



subsection \<open>No quotient divides by zero\<close>


















subsection \<open>What a guarded quotient returns\<close>





subsection \<open>The empty batch\<close>







section \<open>The evaluation runner\<close>

lemma collect_results_length: "length (collect_results f cs) \<le> length cs"
  by (induction cs) (auto split: sum.splits)

lemma collect_results_shorter:
  assumes "\<exists>c \<in> set cs. isl (f c)"
  shows "length (collect_results f cs) < length cs"
  using assms
proof (induction cs)
  case Nil
  then show ?case by simp
next
  case (Cons c cs)
  show ?case
  proof (cases "f c")
    case (Inl e)
    with collect_results_length [of f cs] show ?thesis by (simp add: less_Suc_eq_le)
  next
    case (Inr r)
    with Cons show ?thesis by auto
  qed
qed

lemma collect_results_set:
  "r \<in> set (collect_results f cs) \<Longrightarrow> \<exists>c \<in> set cs. f c = Inr r"
  by (induction cs) (auto split: sum.splits)

lemma py_item_update_other:
  "k \<noteq> k' \<Longrightarrow> py_item (PDict (AList.update k' v d)) k = py_item (PDict d) k"
  by (simp add: dict_item_def update_conv')

lemma clean_result_has_label:
  assumes "clean_result self c = Inr r"
  shows "\<exists>l. py_item r ''call_type'' = Inr l"
  using assms unfolding clean_result_def Let_def
  by (auto simp: bind_err_eq_Inr py_item_update_other split: if_splits)
    (auto simp: dict_item_def)

lemma script_clean_result_has_label:
  assumes "script_clean_result classifier c = Inr r"
  shows "\<exists>l. py_item r ''call_type'' = Inr l"
  using assms unfolding script_clean_result_def Let_def
  by (auto simp: bind_err_eq_Inr py_item_update_other split: if_splits)
    (auto simp: dict_item_def)

lemma count_where_append:
  "count_where cond (xs @ ys) =
     bind_err (count_where cond xs) (\<lambda>a. bind_err (count_where cond ys) (\<lambda>b. Inr (a + b)))"
proof (induction xs)
  case Nil
  show ?case by (cases "count_where cond ys") simp_all
next
  case (Cons x xs)
  show ?case
    by (cases "cond x"; cases "count_where cond xs"; cases "count_where cond ys")
      (simp_all add: Cons)
qed

lemma count_where_all_ok:
  assumes "\<forall>i \<in> set xs. \<exists>b. cond i = Inr b"
  shows "\<exists>n. count_where cond xs = Inr n"
  using assms by (induction xs) auto

lemma count_where_first_error:
  assumes "\<forall>i < k. \<exists>b. cond i = Inr b" and "cond k = Inl e" and "k < n"
  shows "count_where cond [0..<n] = Inl e"
proof -
  from assms(3) have "[0..<n] = [0..<k] @ k # [Suc k..<n]"
    by (metis less_imp_le_nat upt_add_eq_append upt_conv_Cons le_add_diff_inverse zero_le plus_nat.add_0)
  moreover from assms(1) obtain m where "count_where cond [0..<k] = Inr m"
    using count_where_all_ok [of "[0..<k]" cond] by auto
  ultimately show ?thesis using assms(2) by (simp add: count_where_append)
qed

lemma metrics_short_results:
  assumes "length res < length calls"
    and "\<forall>r \<in> set res. \<exists>l. py_item r ''call_type'' = Inr l"
  shows "EvaluationMetrics_invoke \<lparr>m_calls = calls, m_results = res, m_categories = cats\<rparr> =
    Inl IndexError"
proof -
  have ok: "\<forall>i < length res. \<exists>b. is_match calls res i = Inr b"
  proof (intro allI impI)
    fix i assume i: "i < length res"
    then have "res ! i \<in> set res" by simp
    with assms(2) obtain l where "py_item (res ! i) ''call_type'' = Inr l" by blast
    with i assms(1) show "\<exists>b. is_match calls res i = Inr b"
      by (simp add: is_match_def list_item_def)
  qed
  have bad: "is_match calls res (length res) = Inl IndexError"
    using assms(1) by (simp add: is_match_def list_item_def)
  have "count_where (is_match calls res) [0..<length calls] = Inl IndexError"
    using ok bad assms(1) by (rule count_where_first_error)
  then show ?thesis by (simp add: EvaluationMetrics_invoke_def)
qed

lemma batch_evaluate_failure:
  assumes "\<exists>c \<in> set (case limit of None \<Rightarrow> calls | Some n \<Rightarrow> py_slice_to calls n).
             isl (clean_result self c)"
  shows "batch_evaluate self calls limit = Inl IndexError"
proof -
  let ?calls = "case limit of None \<Rightarrow> calls | Some n \<Rightarrow> py_slice_to calls n"
  let ?res = "collect_results (clean_result self) ?calls"
  have 1: "length ?res < length ?calls"
    using assms by (rule collect_results_shorter)
  have 2: "\<forall>r \<in> set ?res. \<exists>l. py_item r ''call_type'' = Inr l"
    by (auto dest!: collect_results_set clean_result_has_label)
  show ?thesis
    unfolding batch_evaluate_def Let_def
    by (simp add: metrics_short_results [OF 1 2])
qed

lemma run_evaluation_failure:
  assumes "\<exists>c \<in> set (case limit of None \<Rightarrow> calls
                        | Some n \<Rightarrow> if n \<noteq> 0 then py_slice_to calls n else calls).
             isl (script_clean_result classifier c)"
  shows "run_evaluation classifier calls limit = Inl IndexError"
proof -
  let ?calls = "case limit of None \<Rightarrow> calls
                | Some n \<Rightarrow> if n \<noteq> 0 then py_slice_to calls n else calls"
  let ?res = "collect_results (script_clean_result classifier) ?calls"
  have 1: "length ?res < length ?calls"
    using assms by (rule collect_results_shorter)
  have 2: "\<forall>r \<in> set ?res. \<exists>l. py_item r ''call_type'' = Inr l"
    by (auto dest!: collect_results_set script_clean_result_has_label)
  show ?thesis
    unfolding run_evaluation_def Let_def evaluate_accuracy_def
    by (simp add: metrics_short_results [OF 1 2])
qed

lemma clean_result_invoke_fails:
  "isl (RobustEvaluator_invoke self (customer_input c)) \<Longrightarrow> isl (clean_result self c)"
  by (cases "RobustEvaluator_invoke self (customer_input c)") (simp_all add: clean_result_def)

text \<open>
  Claim C3. A batch in which some item fails still completes, and the metrics are taken
  over the successful items. The runner does skip a failed item, but it hands the
  aggregator the full list of calls with the shorter list of results, and the first pass
  over \<^verbatim>\<open>range(len(calls))\<close> reads \<^verbatim>\<open>results[i]\<close> past the end: every batch with a failed
  item ends in IndexError (\<open>batch_evaluate_failure\<close>, \<open>run_evaluation_failure\<close>), and no
  report is produced. Here the second of two calls meets a collaborator failure.
\<close>

theorem batch_with_failed_item_raises:
  "batch_evaluate
     \<lparr>categories = [''BILLING'', ''CLAIMS''],
      primary_parser = (\<lambda>t. if t = ''??'' then Inl (CollaboratorError ''timeout'')
                             else Inr (PDict [(''call_type'', PStr ''BILLING'')])),
      backup_parser = (\<lambda>t. Inr (PDict [(''call_type'', PStr ''BILLING'')])),
      negative_parser = (\<lambda>t. Inr ''yes''),
      combiner = StrategyCombiner_init None\<rparr>
     [\<lparr>c_id = Some ''1'', customer_input = ''my bill is wrong'', c_type = ''BILLING''\<rparr>,
      \<lparr>c_id = Some ''2'', customer_input = ''??'', c_type = ''CLAIMS''\<rparr>]
     None = Inl IndexError \<and>
   length (collect_results (clean_result
     \<lparr>categories = [''BILLING'', ''CLAIMS''],
      primary_parser = (\<lambda>t. if t = ''??'' then Inl (CollaboratorError ''timeout'')
                             else Inr (PDict [(''call_type'', PStr ''BILLING'')])),
      backup_parser = (\<lambda>t. Inr (PDict [(''call_type'', PStr ''BILLING'')])),
      negative_parser = (\<lambda>t. Inr ''yes''),
      combiner = StrategyCombiner_init None\<rparr>)
     [\<lparr>c_id = Some ''1'', customer_input = ''my bill is wrong'', c_type = ''BILLING''\<rparr>,
      \<lparr>c_id = Some ''2'', customer_input = ''??'', c_type = ''CLAIMS''\<rparr>]) = 1 \<and>
   run_evaluation
     (classify (\<lambda>t. if t = ''??'' then Inl (CollaboratorError ''timeout'')
                     else Inr (PDict [(''call_type'', PStr ''BILLING'')]))
               (\<lambda>t. Inr (PDict [(''call_type'', PStr ''BILLING'')]))
               (\<lambda>t. Inr ''yes''))
     [\<lparr>c_id = Some ''1'', customer_input = ''my bill is wrong'', c_type = ''BILLING''\<rparr>,
      \<lparr>c_id = Some ''2'', customer_input = ''??'', c_type = ''CLAIMS''\<rparr>]
     None = Inl IndexError"
  by code_simp

end
